theory Spec2Isabelle
  imports Complex_Main
begin

section \<open>Scalars and the numeric collaborators\<close>

text \<open>
  The classes of \<^verbatim>\<open>RotationMatrix.hpp\<close> and \<^verbatim>\<open>QuaternionEigen.hpp\<close> are templates over
  a primitive type \<^verbatim>\<open>PrimType_\<close> (float or double). The embedding reads a scalar as a real
  number, so every arithmetic step is exact. A floating-point result that is not a number
  (NaN) or not finite is written as \<open>None\<close>: such a value compares unequal to everything,
  itself included.
\<close>

type_synonym Scalar = real

text \<open>Floating-point division: dividing by zero gives an infinity or NaN.\<close>

definition fdiv :: "Scalar \<Rightarrow> Scalar \<Rightarrow> Scalar option" where
  "fdiv a b = (if b = 0 then None else Some (a / b))"

text \<open>
  \<^verbatim>\<open>pow(base, e)\<close> of \<^verbatim>\<open><cmath>\<close>: a negative base with an exponent that is not an
  integer is a domain error (NaN); a zero base with a negative exponent is a pole.
\<close>

definition std_pow :: "Scalar \<Rightarrow> Scalar \<Rightarrow> Scalar option" where
  "std_pow b e =
     (if 0 < b then Some (b powr e)
      else if b = 0 then (if 0 < e then Some 0 else if e = 0 then Some 1 else None)
      else if e = of_int \<lfloor>e\<rfloor> then Some (b powi \<lfloor>e\<rfloor>)
      else None)"

subsection \<open>Eigen::Matrix<Scalar, 3, 3>\<close>

text \<open>
  The fixed-size matrix and quaternion types come from the Eigen library; their
  operations (transpose, product, determinant, norm, conjugate, identity) are written
  out by their usual definitions. Field \<open>mij\<close> is the coefficient \<^verbatim>\<open>(i,j)\<close>: row \<open>i\<close>,
  column \<open>j\<close>, counted from 0.
\<close>

record Matrix3 =
  m00 :: Scalar
  m01 :: Scalar
  m02 :: Scalar
  m10 :: Scalar
  m11 :: Scalar
  m12 :: Scalar
  m20 :: Scalar
  m21 :: Scalar
  m22 :: Scalar

text \<open>The comma initializer \<^verbatim>\<open>m << a,b,c,d,e,f,g,h,i\<close> fills row by row.\<close>

definition comma_init ::
  "Scalar \<Rightarrow> Scalar \<Rightarrow> Scalar \<Rightarrow> Scalar \<Rightarrow> Scalar \<Rightarrow> Scalar \<Rightarrow> Scalar \<Rightarrow> Scalar \<Rightarrow> Scalar \<Rightarrow> Matrix3" where
  "comma_init a b c d e f g h i =
     \<lparr>m00 = a, m01 = b, m02 = c, m10 = d, m11 = e, m12 = f, m20 = g, m21 = h, m22 = i\<rparr>"

definition Identity :: Matrix3 where
  "Identity = comma_init 1 0 0 0 1 0 0 0 1"

definition transpose_eigen :: "Matrix3 \<Rightarrow> Matrix3" where
  "transpose_eigen A =
     \<lparr>m00 = m00 A, m01 = m10 A, m02 = m20 A,
      m10 = m01 A, m11 = m11 A, m12 = m21 A,
      m20 = m02 A, m21 = m12 A, m22 = m22 A\<rparr>"

definition product_eigen :: "Matrix3 \<Rightarrow> Matrix3 \<Rightarrow> Matrix3" where
  "product_eigen A B =
     \<lparr>m00 = m00 A * m00 B + m01 A * m10 B + m02 A * m20 B,
      m01 = m00 A * m01 B + m01 A * m11 B + m02 A * m21 B,
      m02 = m00 A * m02 B + m01 A * m12 B + m02 A * m22 B,
      m10 = m10 A * m00 B + m11 A * m10 B + m12 A * m20 B,
      m11 = m10 A * m01 B + m11 A * m11 B + m12 A * m21 B,
      m12 = m10 A * m02 B + m11 A * m12 B + m12 A * m22 B,
      m20 = m20 A * m00 B + m21 A * m10 B + m22 A * m20 B,
      m21 = m20 A * m01 B + m21 A * m11 B + m22 A * m21 B,
      m22 = m20 A * m02 B + m21 A * m12 B + m22 A * m22 B\<rparr>"

definition determinant_eigen :: "Matrix3 \<Rightarrow> Scalar" where
  "determinant_eigen A =
     m00 A * (m11 A * m22 A - m12 A * m21 A)
     - m01 A * (m10 A * m22 A - m12 A * m20 A)
     + m02 A * (m10 A * m21 A - m11 A * m20 A)"

text \<open>A scalar multiple of a matrix; used to state what \<^verbatim>\<open>fix\<close> computes.\<close>

definition scaled :: "Scalar \<Rightarrow> Matrix3 \<Rightarrow> Matrix3" where
  "scaled f A =
     \<lparr>m00 = f * m00 A, m01 = f * m01 A, m02 = f * m02 A,
      m10 = f * m10 A, m11 = f * m11 A, m12 = f * m12 A,
      m20 = f * m20 A, m21 = f * m21 A, m22 = f * m22 A\<rparr>"

subsection \<open>Eigen::Quaternion<Scalar>\<close>

text \<open>
  The coefficients read by the accessors \<^verbatim>\<open>w()\<close>, \<^verbatim>\<open>x()\<close>, \<^verbatim>\<open>y()\<close>, \<^verbatim>\<open>z()\<close>. The constructor
  \<^verbatim>\<open>Eigen::Quaternion(w, x, y, z)\<close> takes the scalar part first.
\<close>

record Quaternion =
  qw :: Scalar
  qx :: Scalar
  qy :: Scalar
  qz :: Scalar

definition Implementation :: "Scalar \<Rightarrow> Scalar \<Rightarrow> Scalar \<Rightarrow> Scalar \<Rightarrow> Quaternion" where
  "Implementation w x y z = \<lparr>qw = w, qx = x, qy = y, qz = z\<rparr>"

definition Implementation_Identity :: Quaternion where
  "Implementation_Identity = Implementation 1 0 0 0"

definition norm_eigen :: "Quaternion \<Rightarrow> Scalar" where
  "norm_eigen q = sqrt (qw q * qw q + qx q * qx q + qy q * qy q + qz q * qz q)"


section \<open>Assertions\<close>

text \<open>
  The assertion macros throw \<^verbatim>\<open>std::runtime_error\<close> with the given message; this is the
  only error of the library, the invalid representation.
\<close>

datatype error = InvalidRepresentation string

text \<open>
  Modelled from the spec: the macros \<^verbatim>\<open>ASSERT_SCALAR_NEAR\<close>, \<^verbatim>\<open>KINDR_ASSERT_SCALAR_NEAR_DBG\<close>
  and \<^verbatim>\<open>KINDR_ASSERT_MATRIX_NEAR_DBG\<close> are defined in headers that are not part of the
  sources. The spec gives the validity checks as debug-mode checks, skipped entirely in
  non-debug builds, with a relative tolerance of \<open>10\<^sup>-\<^sup>4\<close> for matrices and a tolerance
  of \<open>10\<^sup>-\<^sup>6\<close> for the unit norm; it does not say against which magnitude a relative
  tolerance is taken. A value passes when its distance from the expected one is at most
  the tolerance times a reference magnitude (for a matrix: when this holds for every
  coefficient). A build fixes the two things the sources leave open: whether the
  assertions are compiled in, and the reference magnitude, a function of the value and
  the expected value (constant 1 for an absolute tolerance, the expected value or the
  larger of the two magnitudes for a relative one).
\<close>

record build =
  debug :: bool
  reference :: "Scalar \<Rightarrow> Scalar \<Rightarrow> Scalar"

definition scalar_near :: "build \<Rightarrow> Scalar \<Rightarrow> Scalar \<Rightarrow> Scalar \<Rightarrow> bool" where
  "scalar_near bld a b tol = (\<bar>a - b\<bar> \<le> tol * \<bar>reference bld a b\<bar>)"

definition matrix_near :: "build \<Rightarrow> Matrix3 \<Rightarrow> Matrix3 \<Rightarrow> Scalar \<Rightarrow> bool" where
  "matrix_near bld A B tol =
     (scalar_near bld (m00 A) (m00 B) tol \<and> scalar_near bld (m01 A) (m01 B) tol \<and>
      scalar_near bld (m02 A) (m02 B) tol \<and> scalar_near bld (m10 A) (m10 B) tol \<and>
      scalar_near bld (m11 A) (m11 B) tol \<and> scalar_near bld (m12 A) (m12 B) tol \<and>
      scalar_near bld (m20 A) (m20 B) tol \<and> scalar_near bld (m21 A) (m21 B) tol \<and>
      scalar_near bld (m22 A) (m22 B) tol)"


definition KINDR_ASSERT_SCALAR_NEAR_DBG ::
  "build \<Rightarrow> Scalar \<Rightarrow> Scalar \<Rightarrow> Scalar \<Rightarrow> string \<Rightarrow> error + unit" where
  "KINDR_ASSERT_SCALAR_NEAR_DBG bld a b tol msg =
     (if debug bld \<and> \<not> scalar_near bld a b tol then Inl (InvalidRepresentation msg)
      else Inr ())"

definition KINDR_ASSERT_MATRIX_NEAR_DBG ::
  "build \<Rightarrow> Matrix3 \<Rightarrow> Matrix3 \<Rightarrow> Scalar \<Rightarrow> string \<Rightarrow> error + unit" where
  "KINDR_ASSERT_MATRIX_NEAR_DBG bld A B tol msg =
     (if debug bld \<and> \<not> matrix_near bld A B tol then Inl (InvalidRepresentation msg)
      else Inr ())"

text \<open>Three builds: debug with an absolute tolerance, debug with a tolerance relative to
  the expected value, and a build without assertions.\<close>

definition unit_reference :: "Scalar \<Rightarrow> Scalar \<Rightarrow> Scalar" where
  "unit_reference a b = 1"


definition debug_absolute :: build where
  "debug_absolute = \<lparr>debug = True, reference = unit_reference\<rparr>"



section \<open>RotationMatrix\<close>

text \<open>
  \<^verbatim>\<open>RotationMatrix<PrimType_>\<close> inherits privately from the Eigen matrix and has no other
  data: a rotation matrix value is its nine coefficients, whether or not they satisfy
  the orthogonality invariant.
\<close>

type_synonym RotationMatrix = Matrix3

text \<open>\<^verbatim>\<open>RotationMatrix()\<close>: the identity rotation.\<close>

definition RotationMatrix_default :: RotationMatrix where
  "RotationMatrix_default = Identity"

definition determinant :: "RotationMatrix \<Rightarrow> Scalar" where
  "determinant this = determinant_eigen this"


text \<open>\<^verbatim>\<open>explicit RotationMatrix(const Base& other)\<close>: the same two assertions.\<close>

definition RotationMatrix_Base :: "build \<Rightarrow> Matrix3 \<Rightarrow> error + RotationMatrix" where
  "RotationMatrix_Base bld other =
     (case KINDR_ASSERT_MATRIX_NEAR_DBG bld (product_eigen other (transpose_eigen other)) Identity
             (1 / 10000) ''Input matrix is not orthogonal.'' of
        Inl e \<Rightarrow> Inl e
      | Inr _ \<Rightarrow>
          (case KINDR_ASSERT_SCALAR_NEAR_DBG bld (determinant_eigen other) 1
                  (1 / 10000) ''Input matrix determinant is not 1.'' of
             Inl e \<Rightarrow> Inl e
           | Inr _ \<Rightarrow> Inr other))"

definition inverted :: "RotationMatrix \<Rightarrow> RotationMatrix" where
  "inverted this = transpose_eigen this"

definition invert :: "RotationMatrix \<Rightarrow> RotationMatrix" where
  "invert this = inverted this"

definition transposed :: "RotationMatrix \<Rightarrow> RotationMatrix" where
  "transposed this = transpose_eigen this"

definition transpose_R :: "RotationMatrix \<Rightarrow> RotationMatrix" where
  "transpose_R this = transposed this"

definition matrix :: "RotationMatrix \<Rightarrow> Matrix3" where
  "matrix this = this"

definition setMatrix ::
  "Scalar \<Rightarrow> Scalar \<Rightarrow> Scalar \<Rightarrow> Scalar \<Rightarrow> Scalar \<Rightarrow> Scalar \<Rightarrow> Scalar \<Rightarrow> Scalar \<Rightarrow> Scalar \<Rightarrow> RotationMatrix" where
  "setMatrix r11 r12 r13 r21 r22 r23 r31 r32 r33 = comma_init r11 r12 r13 r21 r22 r23 r31 r32 r33"

definition setIdentity :: "RotationMatrix \<Rightarrow> RotationMatrix" where
  "setIdentity this = Identity"


definition setUnique :: "RotationMatrix \<Rightarrow> RotationMatrix" where
  "setUnique this = this"

text \<open>\<^verbatim>\<open>MultiplicationTraits<RotationBase<RotationMatrix>, RotationBase<RotationMatrix>>::mult\<close>\<close>

definition mult :: "RotationMatrix \<Rightarrow> RotationMatrix \<Rightarrow> RotationMatrix" where
  "mult lhs rhs = product_eigen lhs rhs"

text \<open>
  \<^verbatim>\<open>FixingTraits<RotationMatrix>::fix\<close>: the factor is \<^verbatim>\<open>1/pow(R.determinant(), 1.0/3.0)\<close>,
  and each of the nine coefficients is multiplied by it.
\<close>

definition fix_factor :: "RotationMatrix \<Rightarrow> Scalar option" where
  "fix_factor R =
     (case std_pow (determinant R) (1 / 3) of
        None \<Rightarrow> None
      | Some p \<Rightarrow> fdiv 1 p)"

definition fix_R :: "RotationMatrix \<Rightarrow> RotationMatrix option" where
  "fix_R R =
     (case fix_factor R of
        None \<Rightarrow> None
      | Some factor \<Rightarrow>
          Some (setMatrix (factor * m00 (matrix R)) (factor * m01 (matrix R)) (factor * m02 (matrix R))
                          (factor * m10 (matrix R)) (factor * m11 (matrix R)) (factor * m12 (matrix R))
                          (factor * m20 (matrix R)) (factor * m21 (matrix R)) (factor * m22 (matrix R))))"

section \<open>Quaternion and UnitQuaternion\<close>

text \<open>\<^verbatim>\<open>Quaternion()\<close> is \<^verbatim>\<open>Base(Implementation(0,0,0,0))\<close>.\<close>

definition Quaternion_default :: Quaternion where
  "Quaternion_default = Implementation 0 0 0 0"

definition Quaternion_wxyz :: "Scalar \<Rightarrow> Scalar \<Rightarrow> Scalar \<Rightarrow> Scalar \<Rightarrow> Quaternion" where
  "Quaternion_wxyz w x y z = Implementation w x y z"

definition norm_q :: "Quaternion \<Rightarrow> Scalar" where
  "norm_q this = norm_eigen this"


text \<open>
  \<^verbatim>\<open>UnitQuaternion<PrimType>\<close> derives publicly from \<^verbatim>\<open>Quaternion<PrimType>\<close> and adds no
  data. The non-const accessors \<^verbatim>\<open>w()\<close>, \<^verbatim>\<open>x()\<close>, \<^verbatim>\<open>y()\<close>, \<^verbatim>\<open>z()\<close> return references and
  write a coefficient without any assertion (record update in the model), so a unit
  quaternion value is any four coefficients.
\<close>

type_synonym UnitQuaternion = Quaternion

text \<open>\<^verbatim>\<open>UnitQuaternion()\<close> is \<^verbatim>\<open>Base(Implementation::Identity())\<close>.\<close>

definition UnitQuaternion_default :: UnitQuaternion where
  "UnitQuaternion_default = Implementation_Identity"







text \<open>\<^verbatim>\<open>ComparisonTraits<Quaternion>::isequal\<close> and \<^verbatim>\<open>operator ==\<close>.\<close>

definition isequal :: "Quaternion \<Rightarrow> Quaternion \<Rightarrow> bool" where
  "isequal a b = (qw a = qw b \<and> qx a = qx b \<and> qy a = qy b \<and> qz a = qz b)"

definition operator_eq :: "Quaternion \<Rightarrow> Quaternion \<Rightarrow> bool" where
  "operator_eq a b = isequal a b"

section \<open>Conversions to RotationMatrix\<close>

text \<open>
  Modelled from the spec: the class \<^verbatim>\<open>RotationVector\<close> is missing from the sources. It
  holds three components, and its magnitude, the Euclidean norm of the three, is the
  rotation angle. The conversion reads it through \<^verbatim>\<open>x()\<close>, \<^verbatim>\<open>y()\<close>, \<^verbatim>\<open>z()\<close> and \<^verbatim>\<open>norm()\<close>
  of its Eigen vector.
\<close>

record RotationVector =
  rv_x :: Scalar
  rv_y :: Scalar
  rv_z :: Scalar

definition rv_norm :: "RotationVector \<Rightarrow> Scalar" where
  "rv_norm rv = sqrt (rv_x rv * rv_x rv + rv_y rv * rv_y rv + rv_z rv * rv_z rv)"

text \<open>
  \<^verbatim>\<open>ConversionTraits<RotationMatrix, RotationVector>::convert\<close>. The threshold
  \<^verbatim>\<open>common::internal::NumTraits<Scalar>::dummy_precision()\<close> is declared outside the sources
  and is the parameter \<open>dummy_precision\<close>.
\<close>

definition convert_RotationVector :: "Scalar \<Rightarrow> RotationVector \<Rightarrow> RotationMatrix option" where
  "convert_RotationVector dummy_precision rotationVector =
     (let v1 = rv_x rotationVector;
          v2 = rv_y rotationVector;
          v3 = rv_z rotationVector;
          v = rv_norm rotationVector
      in if v < dummy_precision then
           Some (comma_init 1 (- v3) v2
                            v3 1 (- v1)
                            (- v2) v1 1)
         else
           (case fdiv 1 (v * v) of
              None \<Rightarrow> None
            | Some t5 \<Rightarrow>
               (let t3 = v * (1 / 2);
                    t2 = sin t3;
                    t4 = cos t3;
                    t6 = t4 * v * v3;
                    t7 = t2 * v1 * v2;
                    t8 = t2 * t2;
                    t9 = v1 * v1;
                    t10 = v2 * v2;
                    t11 = v3 * v3;
                    t12 = v * v;
                    t13 = t4 * t4;
                    t14 = t12 * t13;
                    t15 = t2 * v1 * v3;
                    t16 = t4 * v * v1;
                    t17 = t2 * v2 * v3
                in Some \<lparr>m00 = t5 * (t14 - t8 * (- t9 + t10 + t11)),
                         m01 = t2 * t5 * (t6 - t7) * - 2,
                         m02 = t2 * t5 * (t15 + t4 * v * v2) * 2,
                         m10 = t2 * t5 * (t6 + t7) * 2,
                         m11 = t5 * (t14 - t8 * (t9 - t10 + t11)),
                         m12 = t2 * t5 * (t16 - t17) * - 2,
                         m20 = t2 * t5 * (t15 - t4 * v * v2) * 2,
                         m21 = t2 * t5 * (t16 + t17) * 2,
                         m22 = t5 * (t14 - t8 * (t9 + t10 - t11))\<rparr>)))"

text \<open>
  Modelled from the spec: the class \<^verbatim>\<open>EulerAnglesZyx\<close> is missing from the sources. It holds
  three angles in the order of its axis sequence: the first is the rotation about Z, the
  second about Y, the third about X, and the accessors \<^verbatim>\<open>z()\<close>, \<^verbatim>\<open>y()\<close>, \<^verbatim>\<open>x()\<close> read the
  angle of their axis.
\<close>

record EulerAnglesZyx =
  first :: Scalar
  second :: Scalar
  third :: Scalar

definition EulerAnglesZyx_x :: "EulerAnglesZyx \<Rightarrow> Scalar" where
  "EulerAnglesZyx_x zyx = third zyx"

definition EulerAnglesZyx_y :: "EulerAnglesZyx \<Rightarrow> Scalar" where
  "EulerAnglesZyx_y zyx = second zyx"

definition EulerAnglesZyx_z :: "EulerAnglesZyx \<Rightarrow> Scalar" where
  "EulerAnglesZyx_z zyx = first zyx"

text \<open>
  \<^verbatim>\<open>ConversionTraits<RotationMatrix, EulerAnglesZyx>::convert\<close>: the coefficients are
  computed from \<^verbatim>\<open>phi = zyx.x()\<close>, \<^verbatim>\<open>theta = zyx.y()\<close>, \<^verbatim>\<open>psi = zyx.z()\<close>, and the result is
  built with the checked constructor \<^verbatim>\<open>RotationMatrix(const Base&)\<close>.
\<close>

definition convert_EulerAnglesZyx :: "build \<Rightarrow> EulerAnglesZyx \<Rightarrow> error + RotationMatrix" where
  "convert_EulerAnglesZyx bld zyx =
     (let phi = EulerAnglesZyx_x zyx;
          theta = EulerAnglesZyx_y zyx;
          psi = EulerAnglesZyx_z zyx;
          t2 = cos theta;
          t3 = sin psi;
          t4 = cos psi;
          t5 = sin theta;
          t6 = cos phi;
          t7 = sin phi
      in RotationMatrix_Base bld
           \<lparr>m00 = t2 * t4,
            m01 = - t2 * t3,
            m02 = t5,
            m10 = t3 * t6 + t4 * t5 * t7,
            m11 = t4 * t6 - t3 * t5 * t7,
            m12 = - t2 * t7,
            m20 = t3 * t7 - t4 * t5 * t6,
            m21 = t4 * t7 + t3 * t5 * t6,
            m22 = t2 * t6\<rparr>)"

text \<open>\<^verbatim>\<open>ConversionTraits<RotationMatrix, RotationMatrix>::convert\<close>\<close>

definition convert_RotationMatrix :: "RotationMatrix \<Rightarrow> RotationMatrix" where
  "convert_RotationMatrix R = R"

section \<open>The formulas the specification names\<close>

text \<open>Elementary active rotations about the coordinate axes.\<close>

definition Rx :: "Scalar \<Rightarrow> Matrix3" where
  "Rx a = comma_init 1 0 0
                     0 (cos a) (- sin a)
                     0 (sin a) (cos a)"

definition Ry :: "Scalar \<Rightarrow> Matrix3" where
  "Ry a = comma_init (cos a) 0 (sin a)
                     0 1 0
                     (- sin a) 0 (cos a)"

definition Rz :: "Scalar \<Rightarrow> Matrix3" where
  "Rz a = comma_init (cos a) (- sin a) 0
                     (sin a) (cos a) 0
                     0 0 1"

text \<open>
  The half-angle expansion of a rotation by the angle \<open>v\<close> about the axis \<open>rv / v\<close>: the
  rotation matrix of the unit quaternion with scalar part \<open>cos (v/2)\<close> and vector part
  \<open>sin (v/2) * rv / v\<close>.
\<close>

definition half_angle_quaternion :: "RotationVector \<Rightarrow> Quaternion" where
  "half_angle_quaternion rv =
     (let v = rv_norm rv in
      \<lparr>qw = cos (v / 2),
       qx = sin (v / 2) * (rv_x rv / v),
       qy = sin (v / 2) * (rv_y rv / v),
       qz = sin (v / 2) * (rv_z rv / v)\<rparr>)"

definition quaternion_matrix :: "Quaternion \<Rightarrow> Matrix3" where
  "quaternion_matrix q =
     comma_init (1 - 2 * (qy q * qy q + qz q * qz q)) (2 * (qx q * qy q - qw q * qz q)) (2 * (qx q * qz q + qw q * qy q))
                (2 * (qx q * qy q + qw q * qz q)) (1 - 2 * (qx q * qx q + qz q * qz q)) (2 * (qy q * qz q - qw q * qx q))
                (2 * (qx q * qz q - qw q * qy q)) (2 * (qy q * qz q + qw q * qx q)) (1 - 2 * (qx q * qx q + qy q * qy q))"

definition half_angle_expansion :: "RotationVector \<Rightarrow> Matrix3" where
  "half_angle_expansion rv = quaternion_matrix (half_angle_quaternion rv)"


text \<open>The adjugate (transposed matrix of cofactors), used to show that a right inverse is
  a left inverse.\<close>

definition adjugate :: "Matrix3 \<Rightarrow> Matrix3" where
  "adjugate A =
     \<lparr>m00 = m11 A * m22 A - m12 A * m21 A,
      m01 = m02 A * m21 A - m01 A * m22 A,
      m02 = m01 A * m12 A - m02 A * m11 A,
      m10 = m12 A * m20 A - m10 A * m22 A,
      m11 = m00 A * m22 A - m02 A * m20 A,
      m12 = m02 A * m10 A - m00 A * m12 A,
      m20 = m10 A * m21 A - m11 A * m20 A,
      m21 = m01 A * m20 A - m00 A * m21 A,
      m22 = m00 A * m11 A - m01 A * m10 A\<rparr>"

text \<open>The orthogonality invariant: the product with the transpose is the identity.\<close>

definition orthogonal :: "Matrix3 \<Rightarrow> bool" where
  "orthogonal A = (product_eigen A (transpose_eigen A) = Identity)"

text \<open>Whether \<^verbatim>\<open>fix\<close> returns a matrix that a second \<^verbatim>\<open>fix\<close> leaves as it is, and whether
  \<^verbatim>\<open>fix\<close> returns its argument.\<close>

definition fix_idempotent_at :: "RotationMatrix \<Rightarrow> bool" where
  "fix_idempotent_at R = (case fix_R R of None \<Rightarrow> False | Some F \<Rightarrow> fix_R F = Some F)"

definition fix_unchanged_at :: "RotationMatrix \<Rightarrow> bool" where
  "fix_unchanged_at R = (fix_R R = Some R)"

section \<open>Basic facts about the matrix operations\<close>

lemma sin_cos_unit: "sin (a::real) * sin a + cos a * cos a = 1"
  using sin_cos_squared_add [of a] by (simp add: power2_eq_square)

lemma cos_sin_unit: "cos (a::real) * cos a + sin a * sin a = 1"
  using sin_cos_unit [of a] by simp

lemma product_eigen_assoc:
  "product_eigen (product_eigen A B) C = product_eigen A (product_eigen B C)"
  by (simp add: product_eigen_def algebra_simps)

lemma transpose_product_eigen:
  "transpose_eigen (product_eigen A B) = product_eigen (transpose_eigen B) (transpose_eigen A)"
  by (simp add: product_eigen_def transpose_eigen_def algebra_simps)

lemma product_eigen_Identity_left: "product_eigen Identity A = A"
  by (simp add: product_eigen_def Identity_def comma_init_def)

lemma determinant_product_eigen:
  "determinant_eigen (product_eigen A B) = determinant_eigen A * determinant_eigen B"
  by (simp add: product_eigen_def determinant_eigen_def algebra_simps)

lemma determinant_scaled: "determinant_eigen (scaled f A) = f * f * f * determinant_eigen A"
  by (simp add: determinant_eigen_def scaled_def algebra_simps)

lemma transpose_scaled: "transpose_eigen (scaled f A) = scaled f (transpose_eigen A)"
  by (simp add: transpose_eigen_def scaled_def)

lemma product_scaled:
  "product_eigen (scaled f A) (scaled g B) = scaled (f * g) (product_eigen A B)"
  by (simp add: product_eigen_def scaled_def algebra_simps)

lemma scaled_one: "scaled 1 A = A"
  by (simp add: scaled_def)

lemma orthogonal_product:
  assumes "orthogonal A" "orthogonal B"
  shows "orthogonal (product_eigen A B)"
proof -
  have "product_eigen (product_eigen A B) (transpose_eigen (product_eigen A B))
      = product_eigen A (product_eigen (product_eigen B (transpose_eigen B)) (transpose_eigen A))"
    by (simp only: transpose_product_eigen product_eigen_assoc)
  also have "\<dots> = Identity"
    using assms by (simp add: orthogonal_def product_eigen_Identity_left)
  finally show ?thesis by (simp add: orthogonal_def)
qed

lemma scalar_near_refl: "0 \<le> tol \<Longrightarrow> scalar_near bld a a tol"
  by (simp add: scalar_near_def)

lemma matrix_near_refl: "0 \<le> tol \<Longrightarrow> matrix_near bld A A tol"
  by (simp add: matrix_near_def scalar_near_refl)

lemma product_eigen_Identity_right: "product_eigen A Identity = A"
  by (simp add: product_eigen_def Identity_def comma_init_def)

lemma determinant_Identity: "determinant_eigen Identity = 1"
  by (simp add: determinant_eigen_def Identity_def comma_init_def)

lemma product_scaled_left: "product_eigen (scaled f A) B = scaled f (product_eigen A B)"
  by (simp add: product_eigen_def scaled_def algebra_simps)

lemma scaled_scaled: "scaled f (scaled g A) = scaled (f * g) A"
  by (simp add: scaled_def)

lemma adjugate_left: "product_eigen (adjugate A) A = scaled (determinant_eigen A) Identity"
  by (simp add: product_eigen_def adjugate_def scaled_def determinant_eigen_def Identity_def
      comma_init_def algebra_simps)

lemma right_inverse_is_left_inverse:
  assumes "product_eigen A B = Identity"
  shows "product_eigen B A = Identity"
proof -
  let ?d = "determinant_eigen A"
  have "?d * determinant_eigen B = 1"
    using assms determinant_product_eigen [of A B] by (simp add: determinant_Identity)
  then have d: "?d \<noteq> 0" by auto
  have "product_eigen (adjugate A) (product_eigen A B) = adjugate A"
    by (simp add: assms product_eigen_Identity_right)
  then have "scaled ?d B = adjugate A"
    by (simp add: product_eigen_assoc [symmetric] adjugate_left product_scaled_left
        product_eigen_Identity_left)
  then have "scaled ?d (product_eigen B A) = scaled ?d Identity"
    by (simp add: product_scaled_left [symmetric] adjugate_left)
  then have "scaled (1 / ?d) (scaled ?d (product_eigen B A))
      = scaled (1 / ?d) (scaled ?d Identity)"
    by simp
  then show ?thesis
    using d by (simp add: scaled_scaled scaled_one)
qed

section \<open>RotationMatrix::inverted and RotationMatrix::transposed\<close>

text \<open>
  Claim C9. For every rotation matrix value, valid or not, \<^verbatim>\<open>inverted\<close> and \<^verbatim>\<open>transposed\<close>
  return the same matrix, the coefficient-wise transpose. It is not the matrix inverse
  when the value is not orthogonal: the diagonal matrix with entries 2, 1, 1 multiplied
  by its \<^verbatim>\<open>inverted\<close> is not the identity.
\<close>

theorem inverted_is_transposed:
  "inverted R = transposed R \<and>
   inverted R = \<lparr>m00 = m00 R, m01 = m10 R, m02 = m20 R,
                 m10 = m01 R, m11 = m11 R, m12 = m21 R,
                 m20 = m02 R, m21 = m12 R, m22 = m22 R\<rparr> \<and>
   mult (comma_init 2 0 0 0 1 0 0 0 1) (inverted (comma_init 2 0 0 0 1 0 0 0 1)) \<noteq> Identity"
  by (simp add: inverted_def transposed_def transpose_eigen_def mult_def product_eigen_def
      comma_init_def Identity_def)

text \<open>
  Claim C3. For every rotation matrix \<open>R\<close> that satisfies the orthogonality invariant,
  \<^verbatim>\<open>inverted\<close> returns the transpose of \<open>R\<close>, and the rotation-matrix multiplication of \<open>R\<close>
  with \<^verbatim>\<open>inverted(R)\<close> is the identity rotation; so is the multiplication in the other
  order.
\<close>

theorem inverse_law:
  "orthogonal R \<Longrightarrow>
     inverted R = transpose_eigen R \<and>
     mult R (inverted R) = RotationMatrix_default \<and>
     mult (inverted R) R = RotationMatrix_default"
proof -
  assume "orthogonal R"
  then have r: "product_eigen R (transpose_eigen R) = Identity"
    by (simp add: orthogonal_def)
  have l: "product_eigen (transpose_eigen R) R = Identity"
    by (rule right_inverse_is_left_inverse [OF r])
  show ?thesis
    by (simp add: inverted_def mult_def RotationMatrix_default_def r l)
qed

text \<open>The quarter turn about the third axis is orthogonal; its inverse is the quarter
  turn back.\<close>

theorem inverse_law_witness:
  "orthogonal (comma_init 0 (- 1) 0 1 0 0 0 0 1) \<and>
   inverted (comma_init 0 (- 1) 0 1 0 0 0 0 1) = comma_init 0 1 0 (- 1) 0 0 0 0 1 \<and>
   mult (comma_init 0 (- 1) 0 1 0 0 0 0 1) (comma_init 0 1 0 (- 1) 0 0 0 0 1)
     = comma_init 1 0 0 0 1 0 0 0 1 \<and>
   mult (comma_init 0 1 0 (- 1) 0 0 0 0 1) (comma_init 0 (- 1) 0 1 0 0 0 0 1)
     = comma_init 1 0 0 0 1 0 0 0 1"
proof -
  have o: "orthogonal (comma_init 0 (- 1) 0 1 0 0 0 0 1)"
    by (simp add: orthogonal_def product_eigen_def transpose_eigen_def comma_init_def Identity_def)
  show ?thesis
    using o inverse_law [OF o]
    by (simp add: inverted_def transpose_eigen_def comma_init_def RotationMatrix_default_def
        Identity_def)
qed

section \<open>Default constructors of the quaternion classes\<close>

text \<open>
  Claim C10. The default constructor of \<^verbatim>\<open>Quaternion\<close> gives the zero quaternion, all four
  coefficients 0 and norm 0; the default constructor of \<^verbatim>\<open>UnitQuaternion\<close> gives the
  identity quaternion, w = 1 and x = y = z = 0.
\<close>

theorem default_constructors:
  "Quaternion_default = \<lparr>qw = 0, qx = 0, qy = 0, qz = 0\<rparr> \<and>
   norm_q Quaternion_default = 0 \<and>
   UnitQuaternion_default = \<lparr>qw = 1, qx = 0, qy = 0, qz = 0\<rparr>"
  by (simp add: Quaternion_default_def UnitQuaternion_default_def Implementation_def
      Implementation_Identity_def norm_q_def norm_eigen_def)

section \<open>Equality of quaternions\<close>

text \<open>
  Claim C7, as the code has it. \<^verbatim>\<open>operator ==\<close> on \<^verbatim>\<open>Quaternion\<close> is
  \<^verbatim>\<open>ComparisonTraits<Quaternion>::isequal\<close>, which compares the four coefficients one by
  one with no canonicalization and no tolerance: two quaternions are equal exactly when
  they are the same four coefficients, and a quaternion equals its negation only when it
  is the zero quaternion.
\<close>

theorem quaternion_equality_is_coefficientwise:
  "operator_eq a b = (a = b) \<and>
   isequal a b = (qw a = qw b \<and> qx a = qx b \<and> qy a = qy b \<and> qz a = qz b) \<and>
   operator_eq q \<lparr>qw = - qw q, qx = - qx q, qy = - qy q, qz = - qz q\<rparr> = (q = Quaternion_default)"
  by (cases q) (auto simp add: operator_eq_def isequal_def Quaternion_default_def Implementation_def)

text \<open>
  Claim C7 as stated says that a quaternion compares equal to its negation. The identity
  quaternion (1, 0, 0, 0) and its negation (-1, 0, 0, 0) compare unequal.
\<close>

theorem quaternion_equality_counterexample:
  "\<not> operator_eq (Quaternion_wxyz 1 0 0 0) (Quaternion_wxyz (- 1) 0 0 0)"
  by (simp add: operator_eq_def isequal_def Quaternion_wxyz_def Implementation_def)

section \<open>Rotation vector to rotation matrix\<close>

lemma rv_norm_sq:
  "rv_norm rv * rv_norm rv = rv_x rv * rv_x rv + rv_y rv * rv_y rv + rv_z rv * rv_z rv"
  unfolding rv_norm_def
  by (metis add_nonneg_nonneg real_sqrt_mult_self abs_of_nonneg zero_le_square)

lemma rv_norm_x_axis: "rv_norm \<lparr>rv_x = a, rv_y = 0, rv_z = 0\<rparr> = \<bar>a\<bar>"
  by (simp add: rv_norm_def)

lemma convert_RotationVector_small:
  "rv_norm rv < dp \<Longrightarrow>
     convert_RotationVector dp rv =
       Some (comma_init 1 (- rv_z rv) (rv_y rv)
                        (rv_z rv) 1 (- rv_x rv)
                        (- rv_y rv) (rv_x rv) 1)"
  by (simp add: convert_RotationVector_def Let_def)

lemma convert_RotationVector_large:
  assumes "0 < dp" "dp \<le> rv_norm rv"
  shows "convert_RotationVector dp rv = Some (half_angle_expansion rv)"
proof -
  define v where "v = rv_norm rv"
  define s where "s = sin (v / 2)"
  define c where "c = cos (v / 2)"
  define v1 where "v1 = rv_x rv"
  define v2 where "v2 = rv_y rv"
  define v3 where "v3 = rv_z rv"
  have vpos: "0 < v" using assms by (simp add: v_def)
  have vv: "v * v = v1 * v1 + v2 * v2 + v3 * v3"
    by (simp add: v_def v1_def v2_def v3_def rv_norm_sq)
  have sc: "s * s + c * c = 1"
    by (simp add: s_def c_def sin_cos_unit)
  have cc: "c * c = 1 - s * s" using sc by simp
  have v11: "v1 * v1 = v * v - v2 * v2 - v3 * v3" using vv by simp
  have d00: "1 / (v * v) * (v * v * (c * c) - s * s * (- (v1 * v1) + v2 * v2 + v3 * v3))
      = 1 - 2 * (s * (v2 / v) * (s * (v2 / v)) + s * (v3 / v) * (s * (v3 / v)))"
    using vpos by (simp add: cc v11 field_simps)
  have d11: "1 / (v * v) * (v * v * (c * c) - s * s * (v1 * v1 - v2 * v2 + v3 * v3))
      = 1 - 2 * (s * (v1 / v) * (s * (v1 / v)) + s * (v3 / v) * (s * (v3 / v)))"
    using vpos by (simp add: cc v11 field_simps)
  have d22: "1 / (v * v) * (v * v * (c * c) - s * s * (v1 * v1 + v2 * v2 - v3 * v3))
      = 1 - 2 * (s * (v1 / v) * (s * (v1 / v)) + s * (v2 / v) * (s * (v2 / v)))"
    using vpos by (simp add: cc v11 field_simps)
  have o01: "s * (1 / (v * v)) * (c * v * v3 - s * v1 * v2) * - 2
      = 2 * (s * (v1 / v) * (s * (v2 / v)) - c * (s * (v3 / v)))"
    using vpos by (simp add: field_simps)
  have o02: "s * (1 / (v * v)) * (s * v1 * v3 + c * v * v2) * 2
      = 2 * (s * (v1 / v) * (s * (v3 / v)) + c * (s * (v2 / v)))"
    using vpos by (simp add: field_simps)
  have o10: "s * (1 / (v * v)) * (c * v * v3 + s * v1 * v2) * 2
      = 2 * (s * (v1 / v) * (s * (v2 / v)) + c * (s * (v3 / v)))"
    using vpos by (simp add: field_simps)
  have o12: "s * (1 / (v * v)) * (c * v * v1 - s * v2 * v3) * - 2
      = 2 * (s * (v2 / v) * (s * (v3 / v)) - c * (s * (v1 / v)))"
    using vpos by (simp add: field_simps)
  have o20: "s * (1 / (v * v)) * (s * v1 * v3 - c * v * v2) * 2
      = 2 * (s * (v1 / v) * (s * (v3 / v)) - c * (s * (v2 / v)))"
    using vpos by (simp add: field_simps)
  have o21: "s * (1 / (v * v)) * (c * v * v1 + s * v2 * v3) * 2
      = 2 * (s * (v2 / v) * (s * (v3 / v)) + c * (s * (v1 / v)))"
    using vpos by (simp add: field_simps)
  have nl: "\<not> v < dp" using assms by (simp add: v_def)
  have "convert_RotationVector dp rv =
    Some \<lparr>m00 = 1 / (v * v) * (v * v * (c * c) - s * s * (- (v1 * v1) + v2 * v2 + v3 * v3)),
          m01 = s * (1 / (v * v)) * (c * v * v3 - s * v1 * v2) * - 2,
          m02 = s * (1 / (v * v)) * (s * v1 * v3 + c * v * v2) * 2,
          m10 = s * (1 / (v * v)) * (c * v * v3 + s * v1 * v2) * 2,
          m11 = 1 / (v * v) * (v * v * (c * c) - s * s * (v1 * v1 - v2 * v2 + v3 * v3)),
          m12 = s * (1 / (v * v)) * (c * v * v1 - s * v2 * v3) * - 2,
          m20 = s * (1 / (v * v)) * (s * v1 * v3 - c * v * v2) * 2,
          m21 = s * (1 / (v * v)) * (c * v * v1 + s * v2 * v3) * 2,
          m22 = 1 / (v * v) * (v * v * (c * c) - s * s * (v1 * v1 + v2 * v2 - v3 * v3))\<rparr>"
    using nl vpos
    unfolding convert_RotationVector_def Let_def fdiv_def v_def [symmetric] v1_def [symmetric]
      v2_def [symmetric] v3_def [symmetric]
    by (simp add: s_def c_def)
  also have "\<dots> = Some (half_angle_expansion rv)"
    unfolding half_angle_expansion_def half_angle_quaternion_def quaternion_matrix_def
      comma_init_def Let_def v_def [symmetric] v1_def [symmetric] v2_def [symmetric]
      v3_def [symmetric] s_def [symmetric] c_def [symmetric]
    by (simp only: d00 d11 d22 o01 o02 o10 o12 o20 o21 Quaternion.simps)
  finally show ?thesis .
qed

text \<open>
  Claim C1. The conversion from a rotation vector compares the norm \<open>v\<close> of the vector
  with the threshold. Below the threshold the result is the first-order matrix with
  diagonal 1 and off-diagonal entries \<open>-v3, v2, v3, -v1, -v2, v1\<close>. At or above the
  threshold (a positive number) the result is the half-angle expansion in \<open>sin (v/2)\<close>
  and \<open>cos (v/2)\<close>, the rotation matrix of the unit quaternion of the rotation. Every
  rotation vector falls in one of the two cases.
\<close>

theorem convert_RotationVector_branches:
  "(rv_norm rv < dummy_precision \<or> dummy_precision \<le> rv_norm rv) \<and>
   (rv_norm rv < dummy_precision \<longrightarrow>
      convert_RotationVector dummy_precision rv =
        Some (comma_init 1 (- rv_z rv) (rv_y rv)
                         (rv_z rv) 1 (- rv_x rv)
                         (- rv_y rv) (rv_x rv) 1)) \<and>
   (0 < dummy_precision \<and> dummy_precision \<le> rv_norm rv \<longrightarrow>
      convert_RotationVector dummy_precision rv = Some (half_angle_expansion rv))"
  using convert_RotationVector_small [of rv dummy_precision]
    convert_RotationVector_large [of dummy_precision rv]
  by (simp add: not_less [symmetric])

text \<open>
  With the threshold \<open>1/2\<close>, the vector \<open>(1/4, 0, 0)\<close> takes the first branch; with the
  threshold \<open>10\<^sup>-\<^sup>1\<^sup>2\<close>, the half turn \<open>(pi, 0, 0)\<close> takes the second and gives the
  diagonal matrix 1, -1, -1.
\<close>

theorem convert_RotationVector_branches_witness:
  "rv_norm \<lparr>rv_x = 1 / 4, rv_y = 0, rv_z = 0\<rparr> < 1 / 2 \<and>
   convert_RotationVector (1 / 2) \<lparr>rv_x = 1 / 4, rv_y = 0, rv_z = 0\<rparr>
     = Some (comma_init 1 0 0 0 1 (- (1 / 4)) 0 (1 / 4) 1) \<and>
   (0::real) < 1 / 10 ^ 12 \<and>
   1 / 10 ^ 12 \<le> rv_norm \<lparr>rv_x = pi, rv_y = 0, rv_z = 0\<rparr> \<and>
   convert_RotationVector (1 / 10 ^ 12) \<lparr>rv_x = pi, rv_y = 0, rv_z = 0\<rparr>
     = Some (comma_init 1 0 0 0 (- 1) 0 0 0 (- 1))"
proof -
  have small: "rv_norm \<lparr>rv_x = 1 / 4, rv_y = 0, rv_z = 0\<rparr> < 1 / 2"
    by (simp add: rv_norm_x_axis)
  have n: "rv_norm \<lparr>rv_x = pi, rv_y = 0, rv_z = 0\<rparr> = pi"
    by (simp add: rv_norm_x_axis)
  have large: "1 / 10 ^ 12 \<le> rv_norm \<lparr>rv_x = pi, rv_y = 0, rv_z = 0\<rparr>"
    using pi_ge_two by (simp add: n)
  have h: "half_angle_expansion \<lparr>rv_x = pi, rv_y = 0, rv_z = 0\<rparr>
      = comma_init 1 0 0 0 (- 1) 0 0 0 (- 1)"
    by (simp add: half_angle_expansion_def half_angle_quaternion_def quaternion_matrix_def n
        Let_def)
  show ?thesis
    using small large
      convert_RotationVector_branches [of "\<lparr>rv_x = 1 / 4, rv_y = 0, rv_z = 0\<rparr>" "1 / 2"]
      convert_RotationVector_branches [of "\<lparr>rv_x = pi, rv_y = 0, rv_z = 0\<rparr>" "1 / 10 ^ 12"]
    by (simp add: h)
qed

text \<open>
  Claim C6. With a positive threshold, the rotation vector (0, 0, 0) converts to the
  identity matrix exactly: every diagonal entry is 1 and every off-diagonal entry is 0.
\<close>

theorem convert_zero_RotationVector:
  "0 < dummy_precision \<Longrightarrow>
     convert_RotationVector dummy_precision \<lparr>rv_x = 0, rv_y = 0, rv_z = 0\<rparr>
       = Some \<lparr>m00 = 1, m01 = 0, m02 = 0, m10 = 0, m11 = 1, m12 = 0, m20 = 0, m21 = 0, m22 = 1\<rparr>"
  by (simp add: convert_RotationVector_def rv_norm_def comma_init_def)

theorem convert_zero_RotationVector_witness:
  "(0::real) < 1 / 10 ^ 12 \<and>
   convert_RotationVector (1 / 10 ^ 12) \<lparr>rv_x = 0, rv_y = 0, rv_z = 0\<rparr> = Some RotationMatrix_default"
  using convert_zero_RotationVector [of "1 / 10 ^ 12"]
  by (simp add: RotationMatrix_default_def Identity_def comma_init_def)

section \<open>Euler angles ZYX to rotation matrix\<close>

lemma orthogonal_Rx: "orthogonal (Rx a)"
  by (simp add: orthogonal_def Rx_def product_eigen_def transpose_eigen_def Identity_def
      comma_init_def sin_cos_unit cos_sin_unit)

lemma orthogonal_Ry: "orthogonal (Ry a)"
  by (simp add: orthogonal_def Ry_def product_eigen_def transpose_eigen_def Identity_def
      comma_init_def sin_cos_unit cos_sin_unit)

lemma orthogonal_Rz: "orthogonal (Rz a)"
  by (simp add: orthogonal_def Rz_def product_eigen_def transpose_eigen_def Identity_def
      comma_init_def sin_cos_unit cos_sin_unit)

lemma determinant_Rx: "determinant_eigen (Rx a) = 1"
  by (simp add: Rx_def determinant_eigen_def comma_init_def cos_sin_unit)

lemma determinant_Ry: "determinant_eigen (Ry a) = 1"
  by (simp add: Ry_def determinant_eigen_def comma_init_def cos_sin_unit)

lemma determinant_Rz: "determinant_eigen (Rz a) = 1"
  by (simp add: Rz_def determinant_eigen_def comma_init_def cos_sin_unit)

text \<open>A matrix that satisfies the invariant exactly passes both assertions of the checked
  constructor in every build: with the assertions compiled in, and whatever the
  reference magnitude of the tolerance.\<close>

lemma RotationMatrix_Base_valid:
  "orthogonal A \<Longrightarrow> determinant_eigen A = 1 \<Longrightarrow> RotationMatrix_Base bld A = Inr A"
  by (simp add: RotationMatrix_Base_def KINDR_ASSERT_MATRIX_NEAR_DBG_def
      KINDR_ASSERT_SCALAR_NEAR_DBG_def orthogonal_def matrix_near_refl scalar_near_refl)

text \<open>The nine coefficients the conversion writes are those of the product
  \<open>Rx c * Ry b * Rz a\<close>, where \<open>a = psi\<close>, \<open>b = theta\<close>, \<open>c = phi\<close>.\<close>

lemma zyx_coefficients:
  "\<lparr>m00 = cos b * cos a,
    m01 = - cos b * sin a,
    m02 = sin b,
    m10 = sin a * cos c + cos a * sin b * sin c,
    m11 = cos a * cos c - sin a * sin b * sin c,
    m12 = - cos b * sin c,
    m20 = sin a * sin c - cos a * sin b * cos c,
    m21 = cos a * sin c + sin a * sin b * cos c,
    m22 = cos b * cos c\<rparr> = product_eigen (Rx c) (product_eigen (Ry b) (Rz a))"
  by (simp add: product_eigen_def Rx_def Ry_def Rz_def comma_init_def algebra_simps)

lemma convert_EulerAnglesZyx_product:
  "convert_EulerAnglesZyx bld \<lparr>first = a, second = b, third = c\<rparr>
     = Inr (product_eigen (Rx c) (product_eigen (Ry b) (Rz a)))"
proof -
  let ?P = "product_eigen (Rx c) (product_eigen (Ry b) (Rz a))"
  have o: "orthogonal ?P"
    by (intro orthogonal_product orthogonal_Rx orthogonal_Ry orthogonal_Rz)
  have d: "determinant_eigen ?P = 1"
    by (simp add: determinant_product_eigen determinant_Rx determinant_Ry determinant_Rz)
  have "convert_EulerAnglesZyx bld \<lparr>first = a, second = b, third = c\<rparr>
      = RotationMatrix_Base bld ?P"
    unfolding convert_EulerAnglesZyx_def Let_def EulerAnglesZyx_x_def EulerAnglesZyx_y_def
      EulerAnglesZyx_z_def
    by (simp only: EulerAnglesZyx.simps zyx_coefficients)
  then show ?thesis
    by (simp only: RotationMatrix_Base_valid [OF o d])
qed

text \<open>
  Claim C2, as the code has it. For all angle triples, converting the Euler angles ZYX
  (first about Z, second about Y, third about X) to a rotation matrix yields the matrix
  product \<open>Rx(third) * Ry(second) * Rz(first)\<close> of elementary active rotations: the
  factor of the Z angle is the rightmost and is applied to a vector first. In terms of
  the accessors it is \<open>Rx(x()) * Ry(y()) * Rz(z())\<close>. The sign pattern of the entries is
  the one of this product; the entry in row 0, column 2 is \<open>sin(second)\<close>.
\<close>

theorem convert_EulerAnglesZyx_is_Rx_Ry_Rz:
  "convert_EulerAnglesZyx bld zyx =
     Inr (product_eigen (Rx (third zyx)) (product_eigen (Ry (second zyx)) (Rz (first zyx)))) \<and>
   convert_EulerAnglesZyx bld zyx =
     Inr (product_eigen (Rx (EulerAnglesZyx_x zyx))
            (product_eigen (Ry (EulerAnglesZyx_y zyx)) (Rz (EulerAnglesZyx_z zyx)))) \<and>
   m02 (product_eigen (Rx (third zyx)) (product_eigen (Ry (second zyx)) (Rz (first zyx))))
     = sin (second zyx)"
proof -
  have "m02 (product_eigen (Rx c) (product_eigen (Ry b) (Rz a))) = sin b" for a b c
    unfolding zyx_coefficients [symmetric] by simp
  then show ?thesis
    by (cases zyx)
      (simp add: convert_EulerAnglesZyx_product EulerAnglesZyx_x_def EulerAnglesZyx_y_def
        EulerAnglesZyx_z_def)
qed

text \<open>
  Claim C2 as stated names the product \<open>Rz(first) * Ry(second) * Rx(third)\<close>. For a
  quarter turn about Z, a quarter turn about Y and no turn about X the conversion
  returns a different matrix.
\<close>

theorem convert_EulerAnglesZyx_counterexample:
  "convert_EulerAnglesZyx debug_absolute \<lparr>first = pi / 2, second = pi / 2, third = 0\<rparr>
     = Inr (comma_init 0 0 1 1 0 0 0 1 0) \<and>
   product_eigen (Rz (pi / 2)) (product_eigen (Ry (pi / 2)) (Rx 0))
     = comma_init 0 (- 1) 0 0 0 1 (- 1) 0 0 \<and>
   convert_EulerAnglesZyx debug_absolute \<lparr>first = pi / 2, second = pi / 2, third = 0\<rparr>
     \<noteq> Inr (product_eigen (Rz (pi / 2)) (product_eigen (Ry (pi / 2)) (Rx 0)))"
proof -
  have l: "convert_EulerAnglesZyx debug_absolute \<lparr>first = pi / 2, second = pi / 2, third = 0\<rparr>
      = Inr (comma_init 0 0 1 1 0 0 0 1 0)"
    by (simp add: convert_EulerAnglesZyx_product product_eigen_def Rx_def Ry_def Rz_def
        comma_init_def)
  have r: "product_eigen (Rz (pi / 2)) (product_eigen (Ry (pi / 2)) (Rx 0))
      = comma_init 0 (- 1) 0 0 0 1 (- 1) 0 0"
    by (simp add: product_eigen_def Rx_def Ry_def Rz_def comma_init_def)
  show ?thesis
    unfolding l r by (simp add: comma_init_def)
qed

section \<open>FixingTraits<RotationMatrix>::fix\<close>

lemma cube_root_cubed:
  assumes "0 < (d::real)"
  shows "(d powr (1 / 3)) * (d powr (1 / 3)) * (d powr (1 / 3)) = d"
proof -
  have "(d powr (1 / 3)) * (d powr (1 / 3)) * (d powr (1 / 3)) = d powr (1 / 3 + 1 / 3 + 1 / 3)"
    by (simp only: powr_add)
  also have "\<dots> = d" using assms by simp
  finally show ?thesis .
qed

lemma cube_root_eight: "(8::real) powr (1 / 3) = 2"
proof -
  have "(8::real) = 2 powr 3" by simp
  then have "(8::real) powr (1 / 3) = (2 powr 3) powr (1 / 3)" by simp
  also have "\<dots> = 2" by (simp only: powr_powr) simp
  finally show ?thesis .
qed

lemma fix_factor_pos:
  assumes "0 < determinant R"
  shows "fix_factor R = Some (1 / determinant R powr (1 / 3))"
  using assms by (simp add: fix_factor_def std_pow_def fdiv_def)

lemma fix_R_scaled: "fix_R R = map_option (\<lambda>factor. scaled factor R) (fix_factor R)"
  by (simp add: fix_R_def setMatrix_def comma_init_def scaled_def matrix_def split: option.split)

lemma fix_R_pos:
  assumes "0 < determinant R"
  shows "fix_R R = Some (scaled (1 / determinant R powr (1 / 3)) R)"
  by (simp add: fix_R_scaled fix_factor_pos [OF assms])

lemma determinant_fix:
  assumes "0 < determinant R"
  shows "determinant (scaled (1 / determinant R powr (1 / 3)) R) = 1"
proof -
  let ?p = "determinant R powr (1 / 3)"
  have "determinant (scaled (1 / ?p) R) = determinant R / (?p * ?p * ?p)"
    by (simp add: determinant_def determinant_scaled)
  also have "\<dots> = 1"
    using assms by (simp add: cube_root_cubed)
  finally show ?thesis .
qed

lemma fix_R_det_one:
  assumes "determinant R = 1"
  shows "fix_R R = Some R"
  using assms fix_R_pos [of R] by (simp add: scaled_one)

lemma fix_R_not_positive:
  assumes "determinant R \<le> 0"
  shows "fix_R R = None"
  using assms by (auto simp add: fix_R_def fix_factor_def std_pow_def fdiv_def)

text \<open>
  Claim C8. \<^verbatim>\<open>fix\<close> multiplies each of the nine coefficients by one factor, the
  reciprocal of the cube root of the determinant, so its result is a scalar multiple of
  its argument. For a matrix with positive determinant the factor is \<open>det R\<close> to the power
  \<open>-1/3\<close>, the result has determinant 1, and the product of the result with its transpose
  is the product of \<open>R\<close> with its transpose scaled by the square of the factor: a defect
  of orthogonality is rescaled, not removed.
\<close>

theorem fix_uniform_scaling:
  "fix_R R = map_option (\<lambda>factor. scaled factor R) (fix_factor R) \<and>
   (0 < determinant R \<longrightarrow>
      fix_factor R = Some (determinant R powr (- (1 / 3))) \<and>
      fix_R R = Some (scaled (determinant R powr (- (1 / 3))) R) \<and>
      determinant (scaled (determinant R powr (- (1 / 3))) R) = 1 \<and>
      product_eigen (scaled (determinant R powr (- (1 / 3))) R)
                    (transpose_eigen (scaled (determinant R powr (- (1 / 3))) R))
        = scaled (determinant R powr (- (1 / 3)) * determinant R powr (- (1 / 3)))
                 (product_eigen R (transpose_eigen R)))"
proof -
  have f: "determinant R powr (- (1 / 3)) = 1 / determinant R powr (1 / 3)"
    by (rule powr_minus_divide)
  have pos: "fix_factor R = Some (determinant R powr (- (1 / 3))) \<and>
        fix_R R = Some (scaled (determinant R powr (- (1 / 3))) R) \<and>
        determinant (scaled (determinant R powr (- (1 / 3))) R) = 1"
    if "0 < determinant R"
    unfolding f
    by (simp only: fix_factor_pos [OF that] fix_R_pos [OF that] determinant_fix [OF that] simp_thms)
  have sq: "product_eigen (scaled g R) (transpose_eigen (scaled g R))
      = scaled (g * g) (product_eigen R (transpose_eigen R))" for g
    by (simp only: transpose_scaled product_scaled)
  show ?thesis
    using pos sq fix_R_scaled [of R] by blast
qed

text \<open>
  The diagonal matrix 4, 2, 1 has determinant 8: the factor is 1/2, the result is the
  diagonal matrix 2, 1, 1/2 with determinant 1, which is still not orthogonal.
\<close>

theorem fix_uniform_scaling_witness:
  "0 < determinant (comma_init 4 0 0 0 2 0 0 0 1) \<and>
   fix_factor (comma_init 4 0 0 0 2 0 0 0 1) = Some (1 / 2) \<and>
   fix_R (comma_init 4 0 0 0 2 0 0 0 1) = Some (comma_init 2 0 0 0 1 0 0 0 (1 / 2)) \<and>
   determinant (comma_init 2 0 0 0 1 0 0 0 (1 / 2)) = 1 \<and>
   product_eigen (comma_init 2 0 0 0 1 0 0 0 (1 / 2))
                 (transpose_eigen (comma_init 2 0 0 0 1 0 0 0 (1 / 2)))
     = comma_init 4 0 0 0 1 0 0 0 (1 / 4) \<and>
   \<not> orthogonal (comma_init 2 0 0 0 1 0 0 0 (1 / 2))"
proof -
  have d: "determinant (comma_init 4 0 0 0 2 0 0 0 1) = 8"
    by (simp add: determinant_def determinant_eigen_def comma_init_def)
  have p: "(8::real) powr (- (1 / 3)) = 1 / 2"
    by (simp only: powr_minus_divide cube_root_eight)
  have s: "scaled (1 / 2) (comma_init 4 0 0 0 2 0 0 0 1) = comma_init 2 0 0 0 1 0 0 0 (1 / 2)"
    by (simp add: scaled_def comma_init_def)
  have q: "scaled (1 / 4)
             (product_eigen (comma_init 4 0 0 0 2 0 0 0 1)
                (transpose_eigen (comma_init 4 0 0 0 2 0 0 0 1)))
           = comma_init 4 0 0 0 1 0 0 0 (1 / 4)"
    by (simp add: scaled_def product_eigen_def transpose_eigen_def comma_init_def)
  have n: "\<not> orthogonal (comma_init 2 0 0 0 1 0 0 0 (1 / 2))"
    by (simp add: orthogonal_def product_eigen_def transpose_eigen_def comma_init_def Identity_def)
  show ?thesis
    using fix_uniform_scaling [of "comma_init 4 0 0 0 2 0 0 0 1"] n
    by (simp add: d p s q)
qed

text \<open>
  Claim C5, as the code has it. For every rotation matrix value with positive
  determinant, \<^verbatim>\<open>fix\<close> applied twice gives what \<^verbatim>\<open>fix\<close> applied once gives; and for
  every value with determinant 1, so for every valid one, \<^verbatim>\<open>fix\<close> returns the value
  unchanged.
\<close>

theorem fix_twice_is_fix_once:
  "(0 < determinant R \<longrightarrow> fix_idempotent_at R) \<and>
   (determinant R = 1 \<longrightarrow> fix_unchanged_at R) \<and>
   (orthogonal R \<and> determinant R = 1 \<longrightarrow> fix_R R = Some R)"
proof -
  have "fix_idempotent_at R" if "0 < determinant R"
    by (simp add: fix_idempotent_at_def fix_R_pos [OF that]
        fix_R_det_one [OF determinant_fix [OF that]])
  then show ?thesis
    by (simp add: fix_unchanged_at_def fix_R_det_one)
qed

text \<open>
  The diagonal matrix 4, 2, 1 is fixed to the diagonal matrix 2, 1, 1/2, which a second
  \<^verbatim>\<open>fix\<close> returns as it is; the quarter turn about the third axis is valid and is
  returned as it is.
\<close>

theorem fix_twice_is_fix_once_witness:
  "0 < determinant (comma_init 4 0 0 0 2 0 0 0 1) \<and>
   fix_R (comma_init 4 0 0 0 2 0 0 0 1) = Some (comma_init 2 0 0 0 1 0 0 0 (1 / 2)) \<and>
   fix_R (comma_init 2 0 0 0 1 0 0 0 (1 / 2)) = Some (comma_init 2 0 0 0 1 0 0 0 (1 / 2)) \<and>
   orthogonal (comma_init 0 (- 1) 0 1 0 0 0 0 1) \<and>
   determinant (comma_init 0 (- 1) 0 1 0 0 0 0 1) = 1 \<and>
   fix_R (comma_init 0 (- 1) 0 1 0 0 0 0 1) = Some (comma_init 0 (- 1) 0 1 0 0 0 0 1)"
proof -
  have d: "determinant (comma_init 4 0 0 0 2 0 0 0 1) = 8"
    by (simp add: determinant_def determinant_eigen_def comma_init_def)
  have s: "scaled (1 / 2) (comma_init 4 0 0 0 2 0 0 0 1) = comma_init 2 0 0 0 1 0 0 0 (1 / 2)"
    by (simp add: scaled_def comma_init_def)
  have f: "fix_R (comma_init 4 0 0 0 2 0 0 0 1) = Some (comma_init 2 0 0 0 1 0 0 0 (1 / 2))"
    using fix_R_pos [of "comma_init 4 0 0 0 2 0 0 0 1"] by (simp add: d cube_root_eight s)
  have o: "orthogonal (comma_init 0 (- 1) 0 1 0 0 0 0 1)"
    by (simp add: orthogonal_def product_eigen_def transpose_eigen_def comma_init_def Identity_def)
  have e: "determinant (comma_init 0 (- 1) 0 1 0 0 0 0 1) = 1"
    by (simp add: determinant_def determinant_eigen_def comma_init_def)
  show ?thesis
    using fix_twice_is_fix_once [of "comma_init 4 0 0 0 2 0 0 0 1"]
      fix_twice_is_fix_once [of "comma_init 0 (- 1) 0 1 0 0 0 0 1"] o
    by (simp add: d e f fix_idempotent_at_def)
qed

text \<open>
  Claim C5 as stated covers every rotation matrix value. The reflection with diagonal
  1, 1, -1 has determinant -1: the cube root of a negative number is not a number, so
  \<^verbatim>\<open>fix\<close> returns no matrix, and fixing twice does not agree with fixing once.
\<close>

theorem fix_twice_counterexample:
  "determinant (comma_init 1 0 0 0 1 0 0 0 (- 1)) = - 1 \<and>
   fix_R (comma_init 1 0 0 0 1 0 0 0 (- 1)) = None \<and>
   \<not> fix_idempotent_at (comma_init 1 0 0 0 1 0 0 0 (- 1))"
proof -
  have d: "determinant (comma_init 1 0 0 0 1 0 0 0 (- 1)) = - 1"
    by (simp add: determinant_def determinant_eigen_def comma_init_def)
  have n: "fix_R (comma_init 1 0 0 0 1 0 0 0 (- 1)) = None"
    by (rule fix_R_not_positive) (simp add: d)
  show ?thesis
    by (simp add: d n fix_idempotent_at_def)
qed

section \<open>Where the invalid-representation error is raised\<close>



















end
